theory Spec2Isabelle
  imports Complex_Main "HOL-Library.AList" "HOL-Library.Char_ord" "HOL-Library.List_Lexorder"
begin

section \<open>Errors raised by the binarizers\<close>

text \<open>
  The Python exceptions the modelled code can raise. A \<^verbatim>\<open>BinarizationError\<close> carries a
  formatted message; the model keeps the data the message is built from.
\<close>

datatype binarization_msg =
    EmptyTokens string
  | DictMismatch "string list" "string list"
  | EmptyGtF0 string

datatype assertion_msg =
    NeedsKeyShiftEmbed
  | PitchRangeInvalid
  | FixedNotCompatibleWithRandom
  | DuplicateTargets
  | NeedsSpkId
  | NumSpkTooSmall
  | FixedScaleNotBelowOne
  | NeedsSpeedEmbed
  | SpeedRangeInvalid
  | DomainInvalid

datatype error =
    BinarizationError binarization_msg
  | AssertionError assertion_msg
  | IndexError
  | ValueError
  | ZeroDivisionError
  | RuntimeError

section \<open>Corpus items\<close>

text \<open>
  One entry of \<^verbatim>\<open>self.items\<close> as \<^verbatim>\<open>load_meta_data\<close> builds it. The dictionary
  \<^verbatim>\<open>self.items\<close> is iterated in insertion order, so it is modelled as a list of
  (item name, meta data) pairs.
\<close>

record meta_data =
  wav_fn :: string
  ph_seq :: "string list"
  ph_dur :: "rat list"
  spk_id :: nat

type_synonym items = "(string \<times> meta_data) list"

section \<open>Coverage Validator: \<^verbatim>\<open>AcousticBinarizer.check_coverage\<close>\<close>

text \<open>
  What \<^verbatim>\<open>check_coverage\<close> prints: the header line, one entry per key of
  \<^verbatim>\<open>phoneme_map\<close> with the \<^verbatim>\<open>end\<close> string of the \<^verbatim>\<open>print\<close> call, and the notice
  that the chart was saved. Drawing the chart itself (matplotlib) is not modelled.
\<close>

datatype print_end = EndNewline | EndCommaNewline | EndComma

datatype printed =
    SummaryHeader
  | SummaryEntry string nat print_end
  | SavedSummary

text \<open>
  The loop over \<^verbatim>\<open>self.items\<close>: the phonemes of each item are appended to
  \<^verbatim>\<open>ph_occurred\<close>, and the emptiness test reads the accumulated list.
\<close>

fun load_occurred :: "items \<Rightarrow> string list \<Rightarrow> error + string list" where
  "load_occurred [] ph_occurred = Inr ph_occurred"
| "load_occurred ((item_name, m) # rest) ph_occurred =
     (let ph_occurred' = ph_occurred @ ph_seq m
      in if length ph_occurred' = 0
         then Inl (BinarizationError (EmptyTokens item_name))
         else load_occurred rest ph_occurred')"

text \<open>
  \<^verbatim>\<open>phoneme_map\<close> is a Python dictionary, modelled as an association list with one
  entry per key. \<^verbatim>\<open>for ph in ph_required: phoneme_map[ph] = 0\<close> visits each element of
  the set once.
\<close>

definition init_phoneme_map :: "string list \<Rightarrow> (string \<times> nat) list" where
  "init_phoneme_map dictionary = map (\<lambda>ph. (ph, 0)) (remdups dictionary)"

text \<open>
  \<^verbatim>\<open>for ph in ph_occurred: if ph not in ph_required: continue; phoneme_map[ph] += 1\<close>.
  The keys of \<^verbatim>\<open>phoneme_map\<close> are the required phonemes, so the increment always finds
  its key.
\<close>

fun count_occurred ::
  "string set \<Rightarrow> (string \<times> nat) list \<Rightarrow> string list \<Rightarrow> (string \<times> nat) list" where
  "count_occurred ph_required phoneme_map [] = phoneme_map"
| "count_occurred ph_required phoneme_map (ph # phs) =
     (if ph \<notin> ph_required then count_occurred ph_required phoneme_map phs
      else count_occurred ph_required
             (AList.update ph (the (map_of phoneme_map ph) + 1) phoneme_map) phs)"

definition summary_end :: "nat \<Rightarrow> nat \<Rightarrow> print_end" where
  "summary_end n i =
     (if int i = int n - 1 then EndNewline
      else if i mod 10 = 9 then EndCommaNewline
      else EndComma)"

text \<open>\<^verbatim>\<open>for i, key in enumerate(sorted(phoneme_map.keys())): print(...)\<close>\<close>

definition print_summary :: "nat \<Rightarrow> (string \<times> nat) list \<Rightarrow> printed list" where
  "print_summary n phoneme_map =
     map (\<lambda>(i, key). SummaryEntry key (the (map_of phoneme_map key)) (summary_end n i))
       (enumerate 0 (sort (map fst phoneme_map)))"

text \<open>
  The whole check. \<^verbatim>\<open>dictionary\<close> is the list \<^verbatim>\<open>build_phoneme_list()\<close> returns. The
  result pairs what was printed with the outcome.
\<close>

definition check_coverage :: "string list \<Rightarrow> items \<Rightarrow> printed list \<times> (error + unit)" where
  "check_coverage dictionary its =
     (let ph_required = set dictionary;
          phoneme_map = init_phoneme_map dictionary
      in case load_occurred its [] of
           Inl e \<Rightarrow> ([], Inl e)
         | Inr ph_occurred_list \<Rightarrow>
             (let phoneme_map' = count_occurred ph_required phoneme_map ph_occurred_list;
                  ph_occurred = set ph_occurred_list;
                  out = SummaryHeader
                        # print_summary (card ph_required) phoneme_map'
                        @ [SavedSummary]
              in if ph_occurred \<noteq> ph_required
                 then (out, Inl (BinarizationError (DictMismatch
                         (sorted_list_of_set (ph_occurred - ph_required))
                         (sorted_list_of_set (ph_required - ph_occurred)))))
                 else (out, Inr ())))"

section \<open>Augmentation Scheduler: \<^verbatim>\<open>AcousticBinarizer.arrange_data_augmentation\<close>\<close>

subsection \<open>Configuration\<close>

text \<open>
  One block of \<^verbatim>\<open>self.augmentation_args\<close>. The three strategies read different keys of
  their block (\<^verbatim>\<open>range\<close>, \<^verbatim>\<open>scale\<close>, \<^verbatim>\<open>domain\<close>, \<^verbatim>\<open>targets\<close>); a block that lacks a
  key its strategy reads is not modelled. Python floats are modelled as rationals with
  exact arithmetic.
\<close>

record aug_args =
  range_arg :: "rat \<times> rat"
  scale :: rat
  domain :: string
  targets :: "rat list"

record augmentation_args =
  random_pitch_shifting :: "aug_args option"
  fixed_pitch_shifting :: "aug_args option"
  random_time_stretching :: "aug_args option"

record hparams =
  use_key_shift_embed :: bool
  use_speed_embed :: bool
  use_spk_id :: bool
  num_spk :: nat
  hop_size :: nat
  audio_sample_rate :: nat

subsection \<open>Tasks and the scheduler's state\<close>

text \<open>
  \<^verbatim>\<open>'func': aug_ins.process_item\<close> is the bound method of the
  \<^verbatim>\<open>SpectrogramStretchAugmentation\<close> instance built from the strategy's block.
\<close>

datatype aug_func = SpecStretchProcessItem aug_args

record kwargs =
  key_shift :: "rat option"
  replace_spk_id :: "int option"
  speed :: "rat option"

record aug_task =
  name :: string
  func :: aug_func
  kwargs :: kwargs

text \<open>
  Task dictionaries are shared between \<^verbatim>\<open>aug_map\<close> and \<^verbatim>\<open>aug_list\<close> and are mutated in
  place by the time-stretch stage, so they live in an explicit store: \<open>heap\<close> holds the
  task objects, an address is an index into it, and \<^verbatim>\<open>aug_map\<close> and \<^verbatim>\<open>aug_list\<close> hold
  addresses. \<open>rng_pos\<close> counts the calls of \<^verbatim>\<open>random.random()\<close> made so far.
\<close>

record scheduler =
  heap :: "aug_task list"
  aug_map :: "(string \<times> nat list) list"
  aug_list :: "nat list"
  rng_pos :: nat
  total_scale :: rat

text \<open>
  \<^verbatim>\<open>if key in aug_map: aug_map[key].append(aug_task) else: aug_map[key] = [aug_task]\<close>
  followed by \<^verbatim>\<open>aug_list.append(aug_task)\<close>, for a task object that is new.
\<close>

definition append_task :: "string \<Rightarrow> aug_task \<Rightarrow> scheduler \<Rightarrow> scheduler" where
  "append_task key t s =
     (let a = length (heap s)
      in s\<lparr>heap := heap s @ [t],
           aug_map := (case map_of (aug_map s) key of
                         Some refs \<Rightarrow> AList.update key (refs @ [a]) (aug_map s)
                       | None \<Rightarrow> AList.update key [a] (aug_map s)),
           aug_list := aug_list s @ [a]\<rparr>)"

subsection \<open>Python's \<^verbatim>\<open>int\<close> and \<^verbatim>\<open>random\<close>\<close>

text \<open>\<^verbatim>\<open>int(x)\<close> on a float truncates towards zero.\<close>

definition py_int :: "rat \<Rightarrow> int" where
  "py_int x = (if 0 \<le> x then \<lfloor>x\<rfloor> else \<lceil>x\<rceil>)"

text \<open>
  The generator is a stream: \<open>rnd i\<close> is what the \<open>i\<close>-th call of
  \<^verbatim>\<open>random.random()\<close> returns, a value of the interval [0, 1).
  \<^verbatim>\<open>random.uniform(a, b)\<close> is \<^verbatim>\<open>a + (b - a) * random()\<close>, and
  \<^verbatim>\<open>random.choices(population, k=k)\<close> is
  \<^verbatim>\<open>[population[floor(random() * n)] for i in repeat(None, k)]\<close>: it raises IndexError on
  an empty population when \<open>k\<close> is positive.
\<close>

type_synonym rng = "nat \<Rightarrow> rat"

definition random_uniform :: "rng \<Rightarrow> nat \<Rightarrow> rat \<Rightarrow> rat \<Rightarrow> rat" where
  "random_uniform rnd pos a b = a + (b - a) * rnd pos"

fun random_choices :: "rng \<Rightarrow> nat \<Rightarrow> 'a list \<Rightarrow> nat \<Rightarrow> error + 'a list" where
  "random_choices rnd pos population 0 = Inr []"
| "random_choices rnd pos population (Suc k) =
     (let i = \<lfloor>rnd pos * of_nat (length population)\<rfloor>
      in if 0 \<le> i \<and> i < int (length population)
         then (case random_choices rnd (Suc pos) population k of
                 Inl e \<Rightarrow> Inl e
               | Inr xs \<Rightarrow> Inr (population ! nat i # xs))
         else Inl IndexError)"

subsection \<open>Random pitch shifting\<close>

fun random_pitch_loop :: "rng \<Rightarrow> aug_args \<Rightarrow> string list \<Rightarrow> scheduler \<Rightarrow> scheduler" where
  "random_pitch_loop rnd a [] s = s"
| "random_pitch_loop rnd a (aug_item_name # rest) s =
     (let (key_shift_min, key_shift_max) = range_arg a;
          rand = random_uniform rnd (rng_pos s) (- 1) 1;
          shift = (if rand < 0 then key_shift_min * \<bar>rand\<bar> else key_shift_max * rand);
          aug_task = \<lparr>name = aug_item_name, func = SpecStretchProcessItem a,
                      kwargs = \<lparr>key_shift = Some shift, replace_spk_id = None, speed = None\<rparr>\<rparr>
      in random_pitch_loop rnd a rest
           (append_task aug_item_name aug_task (s\<lparr>rng_pos := Suc (rng_pos s)\<rparr>)))"

definition random_pitch_stage ::
  "rng \<Rightarrow> hparams \<Rightarrow> aug_args \<Rightarrow> string list \<Rightarrow> scheduler \<Rightarrow> error + scheduler" where
  "random_pitch_stage rnd hp a all_item_names s =
     (let (key_shift_min, key_shift_max) = range_arg a
      in if \<not> use_key_shift_embed hp then Inl (AssertionError NeedsKeyShiftEmbed)
         else if \<not> (key_shift_min < 0 \<and> 0 < key_shift_max)
           then Inl (AssertionError PitchRangeInvalid)
         else
           (let k = nat (py_int (scale a * of_nat (length all_item_names)))
            in case random_choices rnd (rng_pos s) all_item_names k of
                 Inl e \<Rightarrow> Inl e
               | Inr aug_item_names \<Rightarrow>
                   (let s' = random_pitch_loop rnd a aug_item_names
                               (s\<lparr>rng_pos := rng_pos s + k\<rparr>)
                    in Inr (s'\<lparr>total_scale := total_scale s' + scale a\<rparr>))))"

subsection \<open>Fixed pitch shifting\<close>

text \<open>
  \<^verbatim>\<open>int(aug_item_name.split(':', maxsplit=1)[0])\<close>: the text before the first colon, read
  as a decimal numeral. \<^verbatim>\<open>load_meta_data\<close> builds the names as
  \<^verbatim>\<open>f'{ds_id}:{item_name}'\<close> with \<^verbatim>\<open>ds_id\<close> a dataset index, so the prefix is a plain
  string of digits; the signs, blanks and underscores \<^verbatim>\<open>int\<close> also accepts are not
  modelled and anything else raises ValueError.
\<close>

definition is_digit :: "char \<Rightarrow> bool" where
  "is_digit c = (CHR ''0'' \<le> c \<and> c \<le> CHR ''9'')"

definition digit_val :: "char \<Rightarrow> nat" where
  "digit_val c = of_char c - of_char CHR ''0''"

definition spk_of_name :: "string \<Rightarrow> error + int" where
  "spk_of_name aug_item_name =
     (let prefix = takeWhile (\<lambda>c. c \<noteq> CHR '':'') aug_item_name
      in if prefix \<noteq> [] \<and> list_all is_digit prefix
         then Inr (int (foldl (\<lambda>n c. 10 * n + digit_val c) 0 prefix))
         else Inl ValueError)"

fun fixed_pitch_items :: "aug_args \<Rightarrow> nat \<Rightarrow> nat \<Rightarrow> rat \<Rightarrow> string list \<Rightarrow> scheduler
    \<Rightarrow> error + scheduler" where
  "fixed_pitch_items a spk_count i target [] s = Inr s"
| "fixed_pitch_items a spk_count i target (aug_item_name # rest) s =
     (case spk_of_name aug_item_name of
        Inl e \<Rightarrow> Inl e
      | Inr original \<Rightarrow>
          (let replace = original + (int i + 1) * int spk_count;
               aug_task = \<lparr>name = aug_item_name, func = SpecStretchProcessItem a,
                           kwargs = \<lparr>key_shift = Some target, replace_spk_id = Some replace,
                                     speed = None\<rparr>\<rparr>
           in fixed_pitch_items a spk_count i target rest
                (append_task aug_item_name aug_task s)))"

fun fixed_pitch_targets :: "rng \<Rightarrow> aug_args \<Rightarrow> nat \<Rightarrow> string list \<Rightarrow> (nat \<times> rat) list
    \<Rightarrow> scheduler \<Rightarrow> error + scheduler" where
  "fixed_pitch_targets rnd a spk_count all_item_names [] s = Inr s"
| "fixed_pitch_targets rnd a spk_count all_item_names ((i, target) # rest) s =
     (let k = nat (py_int (scale a * of_nat (length all_item_names)))
      in case random_choices rnd (rng_pos s) all_item_names k of
           Inl e \<Rightarrow> Inl e
         | Inr aug_item_names \<Rightarrow>
             (case fixed_pitch_items a spk_count i target aug_item_names
                     (s\<lparr>rng_pos := rng_pos s + k\<rparr>) of
                Inl e \<Rightarrow> Inl e
              | Inr s' \<Rightarrow> fixed_pitch_targets rnd a spk_count all_item_names rest s'))"

text \<open>\<open>spk_count\<close> is \<^verbatim>\<open>len(self.spk_map)\<close>.\<close>

definition fixed_pitch_stage ::
  "rng \<Rightarrow> hparams \<Rightarrow> nat \<Rightarrow> augmentation_args \<Rightarrow> aug_args \<Rightarrow> string list \<Rightarrow> scheduler
    \<Rightarrow> error + scheduler" where
  "fixed_pitch_stage rnd hp spk_count args a all_item_names s =
     (if random_pitch_shifting args \<noteq> None
        then Inl (AssertionError FixedNotCompatibleWithRandom)
      else if \<not> distinct (targets a) then Inl (AssertionError DuplicateTargets)
      else if \<not> use_spk_id hp then Inl (AssertionError NeedsSpkId)
      else if \<not> (num_spk hp \<ge> (1 + length (targets a)) * spk_count)
        then Inl (AssertionError NumSpkTooSmall)
      else if \<not> (scale a < 1) then Inl (AssertionError FixedScaleNotBelowOne)
      else
        (case fixed_pitch_targets rnd a spk_count all_item_names
                (enumerate 0 (targets a)) s of
           Inl e \<Rightarrow> Inl e
         | Inr s' \<Rightarrow>
             Inr (s'\<lparr>total_scale := total_scale s' + scale a * of_nat (length (targets a))\<rparr>)))"

subsection \<open>Random time stretching\<close>

text \<open>
  The speed drawn for one task; either branch calls \<^verbatim>\<open>random.random()\<close> once. The
  power of the log domain is not a rational function, so \<^verbatim>\<open>**\<close> is the parameter
  \<open>pow\<close>.
\<close>

definition draw_speed :: "(rat \<Rightarrow> rat \<Rightarrow> rat) \<Rightarrow> rng \<Rightarrow> nat \<Rightarrow> aug_args \<Rightarrow> rat" where
  "draw_speed pow rnd pos a =
     (let (speed_min, speed_max) = range_arg a
      in if domain a = ''log''
         then speed_min * pow (speed_max / speed_min) (rnd pos)
         else (let rand = random_uniform rnd pos (- 1) 1
               in if rand \<ge> 0 then 1 + (speed_max - 1) * rand
                  else 1 + (1 - speed_min) * rand))"

text \<open>
  \<^verbatim>\<open>aug_items\<close> holds item names (drawn from \<^verbatim>\<open>all_item_names\<close>) followed by task
  objects (drawn from \<^verbatim>\<open>aug_list\<close>).
\<close>

datatype aug_item = RawItem string | TaskRef nat

text \<open>\<^verbatim>\<open>aug_item['kwargs']['speed'] = speed\<close> on the task object at address \<open>r\<close>.\<close>

definition set_speed :: "nat \<Rightarrow> rat \<Rightarrow> scheduler \<Rightarrow> scheduler" where
  "set_speed r v s =
     s\<lparr>heap := (heap s)[r := (heap s ! r)\<lparr>kwargs := (kwargs (heap s ! r))\<lparr>speed := Some v\<rparr>\<rparr>]\<rparr>"

text \<open>
  One iteration of \<^verbatim>\<open>for aug_type, aug_item in zip(aug_types, aug_items)\<close>, after the
  speed was drawn. For type 1 the source runs
  \<^verbatim>\<open>aug_task = deepcopy(aug_item); aug_item['kwargs']['speed'] = speed\<close> and then appends
  \<^verbatim>\<open>aug_task\<close>: the copy is taken first, the assignment goes to the object that was
  drawn. By construction of the two lists, type 0 meets an item name and types 1 and 2
  meet a task object; the last equation covers the pairs that do not occur.
\<close>

fun stretch_step :: "aug_args \<Rightarrow> rat \<Rightarrow> nat \<times> aug_item \<Rightarrow> scheduler \<Rightarrow> scheduler" where
  "stretch_step a v (0, RawItem item_name) s =
     append_task item_name
       \<lparr>name = item_name, func = SpecStretchProcessItem a,
        kwargs = \<lparr>key_shift = None, replace_spk_id = None, speed = Some v\<rparr>\<rparr> s"
| "stretch_step a v (Suc 0, TaskRef r) s =
     (let aug_task = heap s ! r;
          s' = set_speed r v s
      in append_task (name (heap s' ! r)) aug_task s')"
| "stretch_step a v (Suc (Suc 0), TaskRef r) s = set_speed r v s"
| "stretch_step a v other s = s"

fun stretch_loop :: "(rat \<Rightarrow> rat \<Rightarrow> rat) \<Rightarrow> rng \<Rightarrow> aug_args \<Rightarrow> (nat \<times> aug_item) list
    \<Rightarrow> scheduler \<Rightarrow> scheduler" where
  "stretch_loop pow rnd a [] s = s"
| "stretch_loop pow rnd a (x # rest) s =
     (let v = draw_speed pow rnd (rng_pos s) a
      in stretch_loop pow rnd a rest (stretch_step a v x (s\<lparr>rng_pos := Suc (rng_pos s)\<rparr>)))"

definition time_stretch_stage ::
  "(rat \<Rightarrow> rat \<Rightarrow> rat) \<Rightarrow> rng \<Rightarrow> hparams \<Rightarrow> aug_args \<Rightarrow> string list \<Rightarrow> scheduler
    \<Rightarrow> error + scheduler" where
  "time_stretch_stage pow rnd hp a all_item_names s =
     (let (speed_min, speed_max) = range_arg a
      in if \<not> use_speed_embed hp then Inl (AssertionError NeedsSpeedEmbed)
         else if \<not> (0 < speed_min \<and> speed_min < 1 \<and> 1 < speed_max)
           then Inl (AssertionError SpeedRangeInvalid)
         else if domain a \<notin> set [''log'', ''linear''] then Inl (AssertionError DomainInvalid)
         else if 1 + total_scale s = 0 \<or> 1 + scale a = 0 then Inl ZeroDivisionError
         else
           (let n = of_nat (length all_item_names);
                k_from_raw = py_int (scale a / (1 + total_scale s) * n);
                k_from_aug = py_int (total_scale s * scale a / (1 + total_scale s) * n);
                k_mutate = py_int (total_scale s * scale a / (1 + scale a) * n);
                aug_types = replicate (nat k_from_raw) 0 @ replicate (nat k_from_aug) 1
                            @ replicate (nat k_mutate) 2
            in case random_choices rnd (rng_pos s) all_item_names (nat k_from_raw) of
                 Inl e \<Rightarrow> Inl e
               | Inr raw \<Rightarrow>
                   (case random_choices rnd (rng_pos s + nat k_from_raw) (aug_list s)
                           (nat (k_from_aug + k_mutate)) of
                      Inl e \<Rightarrow> Inl e
                    | Inr refs \<Rightarrow>
                        (let aug_items = map RawItem raw @ map TaskRef refs;
                             s' = stretch_loop pow rnd a (zip aug_types aug_items)
                                    (s\<lparr>rng_pos := rng_pos s + nat k_from_raw
                                                     + nat (k_from_aug + k_mutate)\<rparr>)
                         in Inr (s'\<lparr>total_scale := total_scale s' + scale a\<rparr>)))))"

subsection \<open>All stages\<close>

definition bind_err :: "error + 'a \<Rightarrow> ('a \<Rightarrow> error + 'b) \<Rightarrow> error + 'b" where
  "bind_err r f = (case r of Inl e \<Rightarrow> Inl e | Inr x \<Rightarrow> f x)"

definition empty_scheduler :: scheduler where
  "empty_scheduler = \<lparr>heap = [], aug_map = [], aug_list = [], rng_pos = 0, total_scale = 0\<rparr>"

text \<open>The scheduler's state when \<^verbatim>\<open>arrange_data_augmentation\<close> reaches its \<^verbatim>\<open>return\<close>.\<close>

definition arrange_state ::
  "(rat \<Rightarrow> rat \<Rightarrow> rat) \<Rightarrow> rng \<Rightarrow> hparams \<Rightarrow> nat \<Rightarrow> augmentation_args \<Rightarrow> string list
    \<Rightarrow> error + scheduler" where
  "arrange_state pow rnd hp spk_count args all_item_names =
     bind_err
       (case random_pitch_shifting args of
          None \<Rightarrow> Inr empty_scheduler
        | Some a \<Rightarrow> random_pitch_stage rnd hp a all_item_names empty_scheduler)
       (\<lambda>s1. bind_err
          (case fixed_pitch_shifting args of
             None \<Rightarrow> Inr s1
           | Some a \<Rightarrow> fixed_pitch_stage rnd hp spk_count args a all_item_names s1)
          (\<lambda>s2. case random_time_stretching args of
                   None \<Rightarrow> Inr s2
                 | Some a \<Rightarrow> time_stretch_stage pow rnd hp a all_item_names s2))"

text \<open>The returned \<^verbatim>\<open>aug_map\<close>, with every address replaced by the task it holds.\<close>

definition tasks_of :: "scheduler \<Rightarrow> (string \<times> aug_task list) list" where
  "tasks_of s = map (\<lambda>(key, refs). (key, map (\<lambda>r. heap s ! r) refs)) (aug_map s)"

definition arrange_data_augmentation ::
  "(rat \<Rightarrow> rat \<Rightarrow> rat) \<Rightarrow> rng \<Rightarrow> hparams \<Rightarrow> nat \<Rightarrow> augmentation_args \<Rightarrow> string list
    \<Rightarrow> error + (string \<times> aug_task list) list" where
  "arrange_data_augmentation pow rnd hp spk_count args all_item_names =
     bind_err (arrange_state pow rnd hp spk_count args all_item_names) (\<lambda>s. Inr (tasks_of s))"

section \<open>Parallel Binarization Driver: \<^verbatim>\<open>AcousticBinarizer.process_data_split\<close>\<close>

text \<open>
  The fields of a processed item the driver reads (\<^verbatim>\<open>'name'\<close>, \<^verbatim>\<open>'length'\<close>,
  \<^verbatim>\<open>'seconds'\<close>) and the ones copied from the meta data. The arrays an item also
  carries (mel, tokens, f0, mel2ph) come from functions outside these sources and are
  left to the record's extension.
\<close>

record processed =
  p_name :: string
  p_wav_fn :: string
  p_spk_id :: nat
  p_seconds :: rat
  p_length :: int

text \<open>
  \<^verbatim>\<open>AcousticBinarizer.process_item\<close>. \<open>wav_features\<close> stands for the feature extractor and
  the pitch estimator: for a wave file it gives the number of mel frames and the
  unvoiced mask. \<^verbatim>\<open>uv.all()\<close> is true of an empty mask.
\<close>

definition process_item ::
  "hparams \<Rightarrow> (string \<Rightarrow> nat \<times> bool list) \<Rightarrow> string \<Rightarrow> meta_data \<Rightarrow> error + processed option" where
  "process_item hp wav_features item_name m =
     (let (len, uv) = wav_features (wav_fn m)
      in if audio_sample_rate hp = 0 then Inl ZeroDivisionError
         else if list_all (\<lambda>b. b) uv then Inl (BinarizationError (EmptyGtF0 item_name))
         else Inr (Some \<lparr>p_name = item_name, p_wav_fn = wav_fn m, p_spk_id = spk_id m,
                         p_seconds = of_nat len * of_nat (hop_size hp)
                                     / of_nat (audio_sample_rate hp),
                         p_length = int len\<rparr>))"

text \<open>
  What the driver has written: the records added to the builder in write order, the
  \<^verbatim>\<open>lengths\<close> list, the two duration totals, whether the builder was finalized and the
  content of the \<^verbatim>\<open>.lengths\<close> file once it is saved.
\<close>

record 'i split_state =
  store :: "'i list"
  lengths :: "int list"
  total_sec :: rat
  total_raw_sec :: rat
  finalized :: bool
  lengths_file :: "int list option"

definition empty_split :: "'i split_state" where
  "empty_split = \<lparr>store = [], lengths = [], total_sec = 0, total_raw_sec = 0,
                   finalized = False, lengths_file = None\<rparr>"

text \<open>
  \<open>aug_apply\<close> is \<^verbatim>\<open>task['func'](_item, **task['kwargs'])\<close>, the augmentation itself.
\<close>

fun apply_tasks ::
  "(aug_func \<Rightarrow> 'a processed_scheme \<Rightarrow> kwargs \<Rightarrow> 'a processed_scheme) \<Rightarrow> 'a processed_scheme
    \<Rightarrow> aug_task list \<Rightarrow> 'a processed_scheme split_state \<Rightarrow> 'a processed_scheme split_state" where
  "apply_tasks aug_apply item [] st = st"
| "apply_tasks aug_apply item (task # rest) st =
     (let aug_item = aug_apply (func task) item (kwargs task)
      in apply_tasks aug_apply item rest
           (st\<lparr>store := store st @ [aug_item],
               lengths := lengths st @ [p_length aug_item],
               total_sec := total_sec st + p_seconds aug_item\<rparr>))"

definition postprocess ::
  "(aug_func \<Rightarrow> 'a processed_scheme \<Rightarrow> kwargs \<Rightarrow> 'a processed_scheme)
    \<Rightarrow> (string \<times> aug_task list) list \<Rightarrow> 'a processed_scheme option
    \<Rightarrow> 'a processed_scheme split_state \<Rightarrow> 'a processed_scheme split_state" where
  "postprocess aug_apply aug_map_tasks item_opt st =
     (case item_opt of
        None \<Rightarrow> st
      | Some item \<Rightarrow>
          apply_tasks aug_apply item
            (case map_of aug_map_tasks (p_name item) of None \<Rightarrow> [] | Some ts \<Rightarrow> ts)
            (st\<lparr>store := store st @ [item],
                lengths := lengths st @ [p_length item],
                total_sec := total_sec st + p_seconds item,
                total_raw_sec := total_raw_sec st + p_seconds item\<rparr>))"

text \<open>
  \<^verbatim>\<open>for a in tqdm(args): item = self.process_item(*a); postprocess(item)\<close>: an exception
  of \<^verbatim>\<open>process_item\<close> leaves the loop, and what was written before it stays written.
\<close>

fun serial_loop ::
  "(string \<Rightarrow> meta_data \<Rightarrow> error + 'a processed_scheme option)
    \<Rightarrow> (aug_func \<Rightarrow> 'a processed_scheme \<Rightarrow> kwargs \<Rightarrow> 'a processed_scheme)
    \<Rightarrow> (string \<times> aug_task list) list \<Rightarrow> items
    \<Rightarrow> 'a processed_scheme split_state \<Rightarrow> 'a processed_scheme split_state \<times> (error + unit)" where
  "serial_loop proc aug_apply aug_map_tasks [] st = (st, Inr ())"
| "serial_loop proc aug_apply aug_map_tasks ((item_name, m) # rest) st =
     (case proc item_name m of
        Inl e \<Rightarrow> (st, Inl e)
      | Inr item \<Rightarrow>
          serial_loop proc aug_apply aug_map_tasks rest
            (postprocess aug_apply aug_map_tasks item st))"

text \<open>
  The split. \<open>its\<close> is what \<^verbatim>\<open>self.meta_data_iterator(prefix)\<close> yields, \<open>arranged\<close> what
  \<^verbatim>\<open>self.arrange_data_augmentation(prefix)\<close> gives for these items, and \<open>worker_results\<close>
  what \<^verbatim>\<open>chunked_multiprocess_run\<close> yields in completion order (read only when
  \<open>num_workers\<close> is positive). The last test is the division
  \<^verbatim>\<open>total_sec / total_raw_sec\<close> of the closing \<^verbatim>\<open>print\<close>.
\<close>

definition process_data_split ::
  "(string \<Rightarrow> meta_data \<Rightarrow> error + 'a processed_scheme option)
    \<Rightarrow> (aug_func \<Rightarrow> 'a processed_scheme \<Rightarrow> kwargs \<Rightarrow> 'a processed_scheme)
    \<Rightarrow> (error + (string \<times> aug_task list) list) \<Rightarrow> 'a processed_scheme option list
    \<Rightarrow> items \<Rightarrow> nat \<Rightarrow> bool
    \<Rightarrow> 'a processed_scheme split_state \<times> (error + unit)" where
  "process_data_split proc aug_apply arranged worker_results its num_workers apply_augmentation =
     (case (if apply_augmentation then arranged else Inr []) of
        Inl e \<Rightarrow> (empty_split, Inl e)
      | Inr aug_map_tasks \<Rightarrow>
          (let (st, r) =
                 (if num_workers > 0
                  then (foldl (\<lambda>st item. postprocess aug_apply aug_map_tasks item st)
                          empty_split worker_results, Inr ())
                  else serial_loop proc aug_apply aug_map_tasks its empty_split)
           in case r of
                Inl e \<Rightarrow> (st, Inl e)
              | Inr u \<Rightarrow>
                  (let st' = st\<lparr>finalized := True, lengths_file := Some (lengths st)\<rparr>
                   in if apply_augmentation \<and> total_raw_sec st' = 0
                      then (st', Inl ZeroDivisionError)
                      else (st', Inr ()))))"

text \<open>
  \<^verbatim>\<open>AcousticBinarizer.process\<close> after \<^verbatim>\<open>super().process()\<close>: the validation split first,
  serially and without augmentation, then the training split.
  \<^verbatim>\<open>apply_augmentation\<close> is \<^verbatim>\<open>len(self.augmentation_args) > 0\<close>; the blocks of
  \<^verbatim>\<open>augmentation_args\<close> are the three strategies.
\<close>

definition process ::
  "(rat \<Rightarrow> rat \<Rightarrow> rat) \<Rightarrow> rng \<Rightarrow> hparams \<Rightarrow> nat \<Rightarrow> augmentation_args
    \<Rightarrow> (string \<Rightarrow> meta_data \<Rightarrow> error + 'a processed_scheme option)
    \<Rightarrow> (aug_func \<Rightarrow> 'a processed_scheme \<Rightarrow> kwargs \<Rightarrow> 'a processed_scheme)
    \<Rightarrow> 'a processed_scheme option list \<Rightarrow> items \<Rightarrow> items \<Rightarrow> nat
    \<Rightarrow> 'a processed_scheme split_state \<times> 'a processed_scheme split_state option
        \<times> (error + unit)" where
  "process pow rnd hp spk_count args proc aug_apply worker_results valid_items train_items
     num_workers =
     (let (valid, r) = process_data_split proc aug_apply (Inr []) [] valid_items 0 False
      in case r of
           Inl e \<Rightarrow> (valid, None, Inl e)
         | Inr u \<Rightarrow>
             (let (train, r') =
                    process_data_split proc aug_apply
                      (arrange_data_augmentation pow rnd hp spk_count args
                         (map fst train_items))
                      worker_results train_items num_workers
                      (random_pitch_shifting args \<noteq> None \<or> fixed_pitch_shifting args \<noteq> None
                       \<or> random_time_stretching args \<noteq> None)
              in (valid, Some train, r')))"

section \<open>Timeline Aligner: \<^verbatim>\<open>VarianceBinarizer.process_item\<close>\<close>

text \<open>
  Durations and the frame hop are floats in the source; they are modelled as rationals
  with exact arithmetic. \<^verbatim>\<open>round\<close> and \<^verbatim>\<open>torch.round\<close> round a tie to the even
  neighbour.
\<close>

definition round_half_even :: "rat \<Rightarrow> int" where
  "round_half_even x =
     (let f = \<lfloor>x\<rfloor>; d = x - of_int f
      in if d < 1 / 2 then f
         else if d > 1 / 2 then f + 1
         else if even f then f else f + 1)"

text \<open>\<^verbatim>\<open>torch.cumsum(x, dim=0)\<close>, with the sum so far as accumulator.\<close>

fun cumsum_from :: "rat \<Rightarrow> rat list \<Rightarrow> rat list" where
  "cumsum_from acc [] = []"
| "cumsum_from acc (x # xs) = (acc + x) # cumsum_from (acc + x) xs"

definition cumsum :: "rat list \<Rightarrow> rat list" where
  "cumsum xs = cumsum_from 0 xs"

text \<open>\<^verbatim>\<open>torch.diff(x, dim=0, prepend=[p])\<close>\<close>

fun diff_prepend :: "int \<Rightarrow> int list \<Rightarrow> int list" where
  "diff_prepend p [] = []"
| "diff_prepend p (x # xs) = (x - p) # diff_prepend x xs"

definition ph_acc :: "rat \<Rightarrow> rat list \<Rightarrow> int list" where
  "ph_acc timestep ph_dur_sec =
     map (\<lambda>c. round_half_even (c / timestep + 1 / 2)) (cumsum ph_dur_sec)"

definition ph_dur_frames :: "rat \<Rightarrow> rat list \<Rightarrow> int list" where
  "ph_dur_frames timestep ph_dur_sec = diff_prepend 0 (ph_acc timestep ph_dur_sec)"

text \<open>
  Lines 82 to 87 of \<^verbatim>\<open>process_item\<close>: \<^verbatim>\<open>seconds\<close>, \<^verbatim>\<open>length\<close> and the per-unit frame
  counts \<^verbatim>\<open>ph_dur\<close>. The Python division \<^verbatim>\<open>seconds / self.timestep\<close> raises on a zero
  hop; nothing else is checked.
\<close>

record aligned =
  al_seconds :: rat
  al_length :: int
  al_ph_dur :: "int list"

definition align :: "rat \<Rightarrow> rat list \<Rightarrow> error + aligned" where
  "align timestep durs =
     (if timestep = 0 then Inl ZeroDivisionError
      else Inr \<lparr>al_seconds = sum_list durs,
                al_length = round_half_even (sum_list durs / timestep),
                al_ph_dur = ph_dur_frames timestep durs\<rparr>)"

text \<open>
  The item \<^verbatim>\<open>VarianceBinarizer.process_item\<close> returns, as far as these sources decide
  it: the alignment above and the test of the unvoiced mask, which makes the item
  \<^verbatim>\<open>None\<close>. \<open>uv_of\<close> stands for loading the wave file and estimating its pitch at the
  given frame count. The steps in between (mel2ph, the MIDI curves) use functions
  outside these sources and are taken to succeed.
\<close>

record variance_item = processed +
  v_ph_dur :: "int list"

definition variance_process_item ::
  "rat \<Rightarrow> (string \<Rightarrow> int \<Rightarrow> bool list) \<Rightarrow> string \<Rightarrow> meta_data \<Rightarrow> error + variance_item option" where
  "variance_process_item timestep uv_of item_name m =
     bind_err (align timestep (ph_dur m))
       (\<lambda>al. if list_all (\<lambda>b. b) (uv_of (wav_fn m) (al_length al)) then Inr None
             else Inr (Some \<lparr>p_name = item_name, p_wav_fn = wav_fn m, p_spk_id = spk_id m,
                             p_seconds = al_seconds al, p_length = al_length al,
                             v_ph_dur = al_ph_dur al\<rparr>))"

section \<open>Phoneme-level mean MIDI pitch: \<^verbatim>\<open>VarianceBinarizer.process_item\<close>\<close>






section \<open>Notions the properties are stated with\<close>

text \<open>The phonemes observed across the corpus, in corpus order.\<close>

definition observed :: "items \<Rightarrow> string list" where
  "observed its = concat (map (\<lambda>(item_name, m). ph_seq m) its)"


text \<open>
  What the fixed pitch shifting stage promises of a task it creates for the target at
  index \<open>i\<close>: the shift is the target and the replacement speaker is the item's
  dataset id plus \<open>(i + 1) * spk_count\<close>.
\<close>

definition fixed_task_of :: "nat \<Rightarrow> nat \<Rightarrow> rat \<Rightarrow> aug_task \<Rightarrow> bool" where
  "fixed_task_of spk_count i target t =
     (\<exists>original. spk_of_name (name t) = Inr original \<and> 0 \<le> original \<and>
        key_shift (kwargs t) = Some target \<and>
        replace_spk_id (kwargs t) = Some (original + (int i + 1) * int spk_count))"


section \<open>Example inputs\<close>

definition ex_hparams :: hparams where
  "ex_hparams = \<lparr>use_key_shift_embed = True, use_speed_embed = True, use_spk_id = True,
                  num_spk = 9, hop_size = 1, audio_sample_rate = 4\<rparr>"

definition ex_rnd :: rng where
  "ex_rnd i = (if even i then 3 / 4 else 1 / 8)"

definition ex_pitch :: aug_args where
  "ex_pitch = \<lparr>range_arg = (- 5, 5), scale = 1 / 2, domain = [], targets = []\<rparr>"

definition ex_pitch_all :: aug_args where
  "ex_pitch_all = \<lparr>range_arg = (- 5, 5), scale = 1, domain = [], targets = []\<rparr>"

definition ex_fixed :: aug_args where
  "ex_fixed = \<lparr>range_arg = (0, 0), scale = 1 / 2, domain = [], targets = [- 3, 3]\<rparr>"

definition ex_stretch :: aug_args where
  "ex_stretch = \<lparr>range_arg = (1 / 2, 2), scale = 1, domain = ''linear'', targets = []\<rparr>"

definition ex_args_fixed :: augmentation_args where
  "ex_args_fixed = \<lparr>random_pitch_shifting = None, fixed_pitch_shifting = Some ex_fixed,
                     random_time_stretching = None\<rparr>"

definition ex_args_both :: augmentation_args where
  "ex_args_both = \<lparr>random_pitch_shifting = Some ex_pitch, fixed_pitch_shifting = Some ex_fixed,
                    random_time_stretching = None\<rparr>"

definition ex_args_chain :: augmentation_args where
  "ex_args_chain = \<lparr>random_pitch_shifting = Some ex_pitch_all, fixed_pitch_shifting = None,
                     random_time_stretching = Some ex_stretch\<rparr>"


definition ex_meta :: "string \<Rightarrow> meta_data" where
  "ex_meta w = \<lparr>wav_fn = w, ph_seq = [''a''], ph_dur = [1], spk_id = 0\<rparr>"

text \<open>
  A feature extractor for the examples: every file has 4 frames, and the file
  \<^verbatim>\<open>mute.wav\<close> is unvoiced in all of them.
\<close>

definition ex_features :: "string \<Rightarrow> nat \<times> bool list" where
  "ex_features w = (4, replicate 4 (w = ''mute.wav''))"

definition ex_uv :: "string \<Rightarrow> int \<Rightarrow> bool list" where
  "ex_uv w n = replicate (nat n) (w = ''mute.wav'')"

definition ex_aug_apply :: "aug_func \<Rightarrow> 'a processed_scheme \<Rightarrow> kwargs \<Rightarrow> 'a processed_scheme" where
  "ex_aug_apply f item kw = item"

section \<open>Properties of the Coverage Validator\<close>



lemma load_occurred_nonempty:
  "occ \<noteq> [] \<Longrightarrow> load_occurred its occ = Inr (occ @ observed its)"
  by (induction its occ rule: load_occurred.induct) (simp_all add: observed_def)

lemma load_occurred_start:
  "load_occurred ((item_name, m) # rest) [] =
     (if ph_seq m = [] then Inl (BinarizationError (EmptyTokens item_name))
      else Inr (observed ((item_name, m) # rest)))"
  by (simp add: load_occurred_nonempty observed_def)


text \<open>
  The scan stops with the empty-token error exactly when the corpus has a first item and
  that item has no phonemes; otherwise it returns every phoneme of the corpus.
\<close>

lemma load_occurred_cases:
  "load_occurred its [] =
     (case its of
        [] \<Rightarrow> Inr []
      | (item_name, m) # rest \<Rightarrow>
          if ph_seq m = [] then Inl (BinarizationError (EmptyTokens item_name))
          else Inr (observed its))"
proof (cases its)
  case Nil
  then show ?thesis by simp
next
  case (Cons a rest)
  obtain n m where a: "a = (n, m)" by (cases a)
  show ?thesis unfolding Cons a load_occurred_start by simp
qed




text \<open>
  Claim C7 on the code: an item without phonemes that is not the first item of the corpus
  passes the validator. Here the second item is empty, the observed set equals the
  required set, and the check ends without an error.
\<close>

theorem check_coverage_empty_item_not_first:
  "check_coverage [''a'', ''b'']
     [(''0:u1'', \<lparr>wav_fn = ''u1.wav'', ph_seq = [''a'', ''b''], ph_dur = [1, 1], spk_id = 0\<rparr>),
      (''0:u2'', \<lparr>wav_fn = ''u2.wav'', ph_seq = [], ph_dur = [], spk_id = 0\<rparr>)]
   = ([SummaryHeader, SummaryEntry ''a'' 1 EndComma, SummaryEntry ''b'' 1 EndNewline,
       SavedSummary], Inr ())"
  by code_simp

section \<open>Properties of the Augmentation Scheduler\<close>

subsection \<open>Appending a task\<close>

lemma append_task_fields:
  "heap (append_task key t s) = heap s @ [t]"
  "aug_list (append_task key t s) = aug_list s @ [length (heap s)]"
  "rng_pos (append_task key t s) = rng_pos s"
  "total_scale (append_task key t s) = total_scale s"
  by (simp_all add: append_task_def Let_def)




subsection \<open>Drawing from the generator\<close>




subsection \<open>The random pitch shifting stage\<close>







subsection \<open>The fixed pitch shifting stage\<close>

lemma spk_of_name_nonneg: "spk_of_name n = Inr original \<Longrightarrow> 0 \<le> original"
  by (auto simp: spk_of_name_def Let_def split: if_splits)

lemma fixed_pitch_items_new:
  "fixed_pitch_items a spk_count i target names s = Inr s' \<Longrightarrow>
   \<exists>new. heap s' = heap s @ new \<and> (\<forall>t\<in>set new. fixed_task_of spk_count i target t)"
proof (induction names arbitrary: s)
  case Nil
  then show ?case by simp
next
  case (Cons n ns)
  from Cons.prems obtain original where o: "spk_of_name n = Inr original"
    by (cases "spk_of_name n") simp_all
  let ?t = "\<lparr>name = n, func = SpecStretchProcessItem a,
             kwargs = \<lparr>key_shift = Some target,
                       replace_spk_id = Some (original + (int i + 1) * int spk_count),
                       speed = None\<rparr>\<rparr>"
  from Cons.prems o
  have "fixed_pitch_items a spk_count i target ns (append_task n ?t s) = Inr s'"
    by (simp add: Let_def)
  from Cons.IH[OF this] obtain new where
    new: "heap s' = heap (append_task n ?t s) @ new"
         "\<forall>t\<in>set new. fixed_task_of spk_count i target t" by auto
  have "fixed_task_of spk_count i target ?t"
    using o spk_of_name_nonneg[OF o] by (simp add: fixed_task_of_def)
  with new have "heap s' = heap s @ (?t # new)
      \<and> (\<forall>t\<in>set (?t # new). fixed_task_of spk_count i target t)"
    by (simp add: append_task_fields)
  then show ?case by blast
qed

lemma fixed_pitch_targets_new:
  "fixed_pitch_targets rnd a spk_count all_item_names its s = Inr s' \<Longrightarrow>
   \<exists>new. heap s' = heap s @ new
       \<and> (\<forall>t\<in>set new. \<exists>(i, target)\<in>set its. fixed_task_of spk_count i target t)"
proof (induction its arbitrary: s)
  case Nil
  then show ?case by simp
next
  case (Cons it its)
  obtain i target where it: "it = (i, target)" by (cases it)
  let ?k = "nat (py_int (scale a * of_nat (length all_item_names)))"
  from Cons.prems it obtain names where
    names: "random_choices rnd (rng_pos s) all_item_names ?k = Inr names"
    by (cases "random_choices rnd (rng_pos s) all_item_names ?k") (simp_all add: Let_def)
  from Cons.prems it names obtain s1 where
    s1: "fixed_pitch_items a spk_count i target names (s\<lparr>rng_pos := rng_pos s + ?k\<rparr>) = Inr s1"
    by (cases "fixed_pitch_items a spk_count i target names (s\<lparr>rng_pos := rng_pos s + ?k\<rparr>)")
       (simp_all add: Let_def)
  from Cons.prems it names s1
  have rest: "fixed_pitch_targets rnd a spk_count all_item_names its s1 = Inr s'"
    by (simp add: Let_def)
  from fixed_pitch_items_new[OF s1] obtain new1 where
    new1: "heap s1 = heap s @ new1" "\<forall>t\<in>set new1. fixed_task_of spk_count i target t"
    by auto
  from Cons.IH[OF rest] obtain new2 where
    new2: "heap s' = heap s1 @ new2"
          "\<forall>t\<in>set new2. \<exists>(i, target)\<in>set its. fixed_task_of spk_count i target t"
    by auto
  have "heap s' = heap s @ (new1 @ new2)" using new1 new2 by simp
  moreover have "\<forall>t\<in>set (new1 @ new2).
      \<exists>(i, target)\<in>set (it # its). fixed_task_of spk_count i target t"
    using new1(2) new2(2) it by auto
  ultimately show ?case by blast
qed

lemma arrange_rejects_fixed_with_random:
  assumes "random_pitch_shifting args \<noteq> None" "fixed_pitch_shifting args \<noteq> None"
  shows "\<exists>e. arrange_data_augmentation pow rnd hp spk_count args all_item_names = Inl e"
proof -
  from assms obtain a1 a2 where
    a: "random_pitch_shifting args = Some a1" "fixed_pitch_shifting args = Some a2" by auto
  show ?thesis
  proof (cases "random_pitch_stage rnd hp a1 all_item_names empty_scheduler")
    case (Inl e)
    then show ?thesis
      using a by (simp add: arrange_data_augmentation_def arrange_state_def bind_err_def)
  next
    case (Inr s1)
    then show ?thesis
      using a
      by (simp add: arrange_data_augmentation_def arrange_state_def bind_err_def
            fixed_pitch_stage_def)
  qed
qed

text \<open>
  Claim C4, as amended. Every task the fixed pitch shifting stage creates is a task for
  some target index \<open>i\<close>: its shift is that target and its replacement speaker id is
  the dataset id read from the item name plus \<open>(i + 1) * spk_count\<close>, which is not one
  of the pre-existing ids \<open>0, ..., spk_count - 1\<close> (for two targets and three speakers
  the ids are the original id plus 3 and plus 6). The tasks queued before the stage are
  left as they were. When fixed and random pitch shifting are both configured, arranging
  the augmentation fails, and the split that asked for it ends with that error before
  any of its items is processed or written. The validation split, which
  \<^verbatim>\<open>process\<close> runs first and without augmentation, is not covered by this.
\<close>

theorem fixed_pitch_stage_speakers:
  "(fixed_pitch_stage rnd hp spk_count args a all_item_names s = Inr s' \<longrightarrow>
      take (length (heap s)) (heap s') = heap s \<and>
      (\<forall>t\<in>set (drop (length (heap s)) (heap s')).
         \<exists>i<length (targets a).
           fixed_task_of spk_count i (targets a ! i) t \<and>
           (\<forall>v. replace_spk_id (kwargs t) = Some v \<longrightarrow> v \<notin> {0 ..< int spk_count})))
   \<and> (random_pitch_shifting args \<noteq> None \<and> fixed_pitch_shifting args \<noteq> None \<longrightarrow>
        (\<exists>e. arrange_data_augmentation pow rnd hp spk_count args (map fst its) = Inl e \<and>
             process_data_split proc aug_apply
               (arrange_data_augmentation pow rnd hp spk_count args (map fst its))
               worker_results its num_workers True = (empty_split, Inl e)))"
proof (intro conjI impI)
  assume both: "random_pitch_shifting args \<noteq> None \<and> fixed_pitch_shifting args \<noteq> None"
  then obtain e where
    e: "arrange_data_augmentation pow rnd hp spk_count args (map fst its) = Inl e"
    using arrange_rejects_fixed_with_random by blast
  then show "\<exists>e. arrange_data_augmentation pow rnd hp spk_count args (map fst its) = Inl e \<and>
             process_data_split proc aug_apply
               (arrange_data_augmentation pow rnd hp spk_count args (map fst its))
               worker_results its num_workers True = (empty_split, Inl e)"
    by (simp add: process_data_split_def)
next
  assume run: "fixed_pitch_stage rnd hp spk_count args a all_item_names s = Inr s'"
  then obtain s1 where
    s1: "fixed_pitch_targets rnd a spk_count all_item_names (enumerate 0 (targets a)) s = Inr s1"
    and s': "s' = s1\<lparr>total_scale := total_scale s1 + scale a * of_nat (length (targets a))\<rparr>"
    by (auto simp: fixed_pitch_stage_def split: if_splits sum.splits)
  from fixed_pitch_targets_new[OF s1] obtain new where
    new: "heap s1 = heap s @ new"
         "\<forall>t\<in>set new. \<exists>(i, target)\<in>set (enumerate 0 (targets a)).
             fixed_task_of spk_count i target t" by auto
  have h: "heap s' = heap s @ new" using s' new(1) by simp
  show "take (length (heap s)) (heap s') = heap s" unfolding h by simp
  show "\<forall>t\<in>set (drop (length (heap s)) (heap s')).
         \<exists>i<length (targets a).
           fixed_task_of spk_count i (targets a ! i) t \<and>
           (\<forall>v. replace_spk_id (kwargs t) = Some v \<longrightarrow> v \<notin> {0 ..< int spk_count})"
  proof
    fix t assume "t \<in> set (drop (length (heap s)) (heap s'))"
    then have "t \<in> set new" unfolding h by simp
    with new(2) obtain i target where
      it: "(i, target) \<in> set (enumerate 0 (targets a))" "fixed_task_of spk_count i target t"
      by blast
    from it(1) have i: "i < length (targets a)" "target = targets a ! i"
      by (auto simp: in_set_enumerate_eq)
    from it(2) obtain original where
      o: "0 \<le> original" "replace_spk_id (kwargs t) = Some (original + (int i + 1) * int spk_count)"
      by (auto simp: fixed_task_of_def)
    have "int spk_count \<le> (int i + 1) * int spk_count"
      by (simp add: distrib_right)
    with o(1) have "int spk_count \<le> original + (int i + 1) * int spk_count" by linarith
    with o(2) have "\<forall>v. replace_spk_id (kwargs t) = Some v \<longrightarrow> v \<notin> {0 ..< int spk_count}"
      by auto
    with i it(2) show "\<exists>i<length (targets a).
           fixed_task_of spk_count i (targets a ! i) t \<and>
           (\<forall>v. replace_spk_id (kwargs t) = Some v \<longrightarrow> v \<notin> {0 ..< int spk_count})"
      by blast
  qed
qed

theorem fixed_pitch_stage_speakers_witness:
  "fixed_pitch_stage ex_rnd ex_hparams 3 ex_args_fixed ex_fixed [''0:a'', ''1:b'']
     empty_scheduler
   = Inr \<lparr>heap =
            [\<lparr>name = ''1:b'', func = SpecStretchProcessItem ex_fixed,
              kwargs = \<lparr>key_shift = Some (- 3), replace_spk_id = Some 4, speed = None\<rparr>\<rparr>,
             \<lparr>name = ''0:a'', func = SpecStretchProcessItem ex_fixed,
              kwargs = \<lparr>key_shift = Some 3, replace_spk_id = Some 6, speed = None\<rparr>\<rparr>],
          aug_map = [(''1:b'', [0]), (''0:a'', [1])], aug_list = [0, 1],
          rng_pos = 2, total_scale = 1\<rparr>
   \<and> (\<exists>i. i < length (targets ex_fixed) \<and>
          fixed_task_of 3 i (targets ex_fixed ! i)
            \<lparr>name = ''0:a'', func = SpecStretchProcessItem ex_fixed,
             kwargs = \<lparr>key_shift = Some 3, replace_spk_id = Some 6, speed = None\<rparr>\<rparr>)
   \<and> (\<exists>e. arrange_data_augmentation (\<lambda>x y. x) ex_rnd ex_hparams 3 ex_args_both
             (map fst [(''0:t'', ex_meta ''t.wav'')]) = Inl e \<and>
           process_data_split (process_item ex_hparams ex_features) ex_aug_apply
             (arrange_data_augmentation (\<lambda>x y. x) ex_rnd ex_hparams 3 ex_args_both
                (map fst [(''0:t'', ex_meta ''t.wav'')]))
             [] [(''0:t'', ex_meta ''t.wav'')] 0 True = (empty_split, Inl e))"
proof -
  let ?t1 = "\<lparr>name = ''1:b'', func = SpecStretchProcessItem ex_fixed,
              kwargs = \<lparr>key_shift = Some (- 3), replace_spk_id = Some 4, speed = None\<rparr>\<rparr>"
  let ?t2 = "\<lparr>name = ''0:a'', func = SpecStretchProcessItem ex_fixed,
              kwargs = \<lparr>key_shift = Some 3, replace_spk_id = Some 6, speed = None\<rparr>\<rparr>"
  let ?s' = "\<lparr>heap = [?t1, ?t2], aug_map = [(''1:b'', [0]), (''0:a'', [1])],
             aug_list = [0, 1], rng_pos = 2, total_scale = 1\<rparr>"
  have run: "fixed_pitch_stage ex_rnd ex_hparams 3 ex_args_fixed ex_fixed [''0:a'', ''1:b'']
     empty_scheduler = Inr ?s'"
    by code_simp
  have both: "random_pitch_shifting ex_args_both \<noteq> None \<and> fixed_pitch_shifting ex_args_both \<noteq> None"
    by (simp add: ex_args_both_def)
  from fixed_pitch_stage_speakers[of ex_rnd ex_hparams 3 ex_args_fixed ex_fixed
      "[''0:a'', ''1:b'']" empty_scheduler ?s'] run
  have "\<forall>t\<in>set (drop (length (heap empty_scheduler)) (heap ?s')).
         \<exists>i<length (targets ex_fixed).
           fixed_task_of 3 i (targets ex_fixed ! i) t \<and>
           (\<forall>v. replace_spk_id (kwargs t) = Some v \<longrightarrow> v \<notin> {0 ..< int 3})"
    by blast
  then have a: "\<exists>i. i < length (targets ex_fixed) \<and> fixed_task_of 3 i (targets ex_fixed ! i) ?t2"
    by (simp add: empty_scheduler_def)
  from fixed_pitch_stage_speakers[where args = ex_args_both and rnd = ex_rnd
      and hp = ex_hparams and spk_count = 3 and pow = "\<lambda>x y. x"
      and its = "[(''0:t'', ex_meta ''t.wav'')]"
      and proc = "process_item ex_hparams ex_features" and aug_apply = ex_aug_apply
      and worker_results = "[]" and num_workers = 0]
    both
  have b: "\<exists>e. arrange_data_augmentation (\<lambda>x y. x) ex_rnd ex_hparams 3 ex_args_both
             (map fst [(''0:t'', ex_meta ''t.wav'')]) = Inl e \<and>
           process_data_split (process_item ex_hparams ex_features) ex_aug_apply
             (arrange_data_augmentation (\<lambda>x y. x) ex_rnd ex_hparams 3 ex_args_both
                (map fst [(''0:t'', ex_meta ''t.wav'')]))
             [] [(''0:t'', ex_meta ''t.wav'')] 0 True = (empty_split, Inl e)"
    by blast
  from run a b show ?thesis by blast
qed

text \<open>
  The claim as written fails on its last part: with both strategies configured,
  \<^verbatim>\<open>process\<close> has processed, written and finalized the validation split by the time the
  configuration is rejected.
\<close>

theorem fixed_with_random_rejected_counterexample:
  "random_pitch_shifting ex_args_both \<noteq> None \<and> fixed_pitch_shifting ex_args_both \<noteq> None \<and>
   process (\<lambda>x y. x) ex_rnd ex_hparams 3 ex_args_both
     (process_item ex_hparams ex_features) ex_aug_apply []
     [(''0:v'', ex_meta ''v.wav'')] [(''0:t'', ex_meta ''t.wav'')] 0
   = (\<lparr>store = [\<lparr>p_name = ''0:v'', p_wav_fn = ''v.wav'', p_spk_id = 0,
                  p_seconds = 1, p_length = 4\<rparr>],
       lengths = [4], total_sec = 1, total_raw_sec = 1,
       finalized = True, lengths_file = Some [4]\<rparr>,
      Some empty_split,
      Inl (AssertionError FixedNotCompatibleWithRandom))"
  by code_simp

subsection \<open>The random time stretching stage\<close>

text \<open>
  What one iteration does with a task drawn from the already scheduled ones. Both kinds
  write the new speed into the drawn task; the kind that appends a task appends a copy
  taken before the write, so the appended task has the speed the drawn one had before.
\<close>

lemma stretch_step_from_aug:
  "heap (stretch_step a v (Suc 0, TaskRef r) s) =
     (heap s)[r := (heap s ! r)\<lparr>kwargs := (kwargs (heap s ! r))\<lparr>speed := Some v\<rparr>\<rparr>] @ [heap s ! r]"
  by (simp add: Let_def append_task_fields set_speed_def)

lemma stretch_step_mutate:
  "heap (stretch_step a v (Suc (Suc 0), TaskRef r) s) =
     (heap s)[r := (heap s ! r)\<lparr>kwargs := (kwargs (heap s ! r))\<lparr>speed := Some v\<rparr>\<rparr>]"
  by (simp add: set_speed_def)

text \<open>
  Claim C5 on the code. Two items, random pitch shifting of every item and random time
  stretching with scale 1: one task is drawn from each pool. The task drawn from the
  pool of scheduled tasks is the first pitch task (address 0, shift 5/2); the stage
  writes the new speed 3/2 into that task and appends its copy (address 3), which has
  the shift but no speed.
\<close>

theorem time_stretch_chained_task:
  "arrange_state (\<lambda>x y. x) ex_rnd ex_hparams 3 ex_args_chain [''0:a'', ''1:b'']
   = Inr \<lparr>heap =
            [\<lparr>name = ''1:b'', func = SpecStretchProcessItem ex_pitch_all,
              kwargs = \<lparr>key_shift = Some (5 / 2), replace_spk_id = None,
                        speed = Some (3 / 2)\<rparr>\<rparr>,
             \<lparr>name = ''0:a'', func = SpecStretchProcessItem ex_pitch_all,
              kwargs = \<lparr>key_shift = Some (- (15 / 4)), replace_spk_id = None,
                        speed = Some (5 / 8)\<rparr>\<rparr>,
             \<lparr>name = ''1:b'', func = SpecStretchProcessItem ex_stretch,
              kwargs = \<lparr>key_shift = None, replace_spk_id = None, speed = Some (5 / 8)\<rparr>\<rparr>,
             \<lparr>name = ''1:b'', func = SpecStretchProcessItem ex_pitch_all,
              kwargs = \<lparr>key_shift = Some (5 / 2), replace_spk_id = None, speed = None\<rparr>\<rparr>],
          aug_map = [(''1:b'', [0, 2, 3]), (''0:a'', [1])],
          aug_list = [0, 1, 2, 3], rng_pos = 10, total_scale = 2\<rparr>"
  by code_simp

section \<open>Properties of the driver\<close>

text \<open>The driver skips an item whose processing returned \<^verbatim>\<open>None\<close>.\<close>

lemma serial_loop_skips_None:
  "proc item_name m = Inr None \<Longrightarrow>
   serial_loop proc aug_apply aug_map_tasks ((item_name, m) # rest) st
     = serial_loop proc aug_apply aug_map_tasks rest st"
  by (simp add: postprocess_def)

text \<open>It stops at an item whose processing raised.\<close>

lemma serial_loop_stops_at_error:
  "proc item_name m = Inl e \<Longrightarrow>
   serial_loop proc aug_apply aug_map_tasks ((item_name, m) # rest) st = (st, Inl e)"
  by simp

text \<open>
  The variance binarizer returns \<^verbatim>\<open>None\<close> for an item that is unvoiced in every frame,
  the acoustic binarizer raises for it.
\<close>

lemma variance_process_item_unvoiced:
  "timestep \<noteq> 0 \<Longrightarrow>
   list_all (\<lambda>b. b) (uv_of (wav_fn m) (round_half_even (sum_list (ph_dur m) / timestep))) \<Longrightarrow>
   variance_process_item timestep uv_of item_name m = Inr None"
  by (simp add: variance_process_item_def align_def bind_err_def)

lemma process_item_unvoiced:
  "audio_sample_rate hp \<noteq> 0 \<Longrightarrow> list_all (\<lambda>b. b) (snd (wav_features (wav_fn m))) \<Longrightarrow>
   process_item hp wav_features item_name m = Inl (BinarizationError (EmptyGtF0 item_name))"
  by (cases "wav_features (wav_fn m)") (simp add: process_item_def)

lemma variance_split_skips_unvoiced:
  "process_data_split (variance_process_item (1 / 4) ex_uv) ex_aug_apply (Inr []) []
     [(''0:a'', ex_meta ''mute.wav''), (''0:b'', ex_meta ''b.wav'')] 0 False
   = (\<lparr>store = [\<lparr>p_name = ''0:b'', p_wav_fn = ''b.wav'', p_spk_id = 0, p_seconds = 1,
                  p_length = 4, v_ph_dur = [4]\<rparr>],
       lengths = [4], total_sec = 1, total_raw_sec = 1, finalized = True,
       lengths_file = Some [4]\<rparr>, Inr ())"
  by code_simp

text \<open>
  Claim C8 on the code. A serial split of the acoustic binarizer whose first item is
  unvoiced in every frame: \<^verbatim>\<open>process_item\<close> raises, the loop ends there, the second
  item is never processed, and the builder is neither finalized nor is the length index
  saved.
\<close>

theorem acoustic_split_aborts_on_unvoiced:
  "process_data_split (process_item ex_hparams ex_features) ex_aug_apply (Inr []) []
     [(''0:a'', ex_meta ''mute.wav''), (''0:b'', ex_meta ''b.wav'')] 0 False
   = (\<lparr>store = [], lengths = [], total_sec = 0, total_raw_sec = 0, finalized = False,
       lengths_file = None\<rparr>,
      Inl (BinarizationError (EmptyGtF0 ''0:a'')))"
  by code_simp

section \<open>Properties of the Timeline Aligner\<close>

subsection \<open>Rounding\<close>



lemma round_half_even_of_int: "round_half_even (of_int z) = z"
  by (simp add: round_half_even_def)


subsection \<open>Cumulative sums and differences\<close>




















subsection \<open>The example of the specification\<close>

text \<open>
  Durations 0.1, 0.2 and 0.1 at a hop of 0.01, in exact arithmetic: every boundary is a
  tie (10.5, 30.5 and 40.5), and rounding ties to even gives the frame counts 10, 20 and
  10 and the target 40. Because the boundaries are ties, what the source computes for
  them is decided by the rounding errors of its float32 arithmetic, which this model
  leaves out.
\<close>

lemma exact_example_on_ties:
  "map (\<lambda>c. c / (1 / 100) + 1 / 2) (cumsum [1 / 10, 1 / 5, 1 / 10]) = [21 / 2, 61 / 2, 81 / 2]
   \<and> align (1 / 100) [1 / 10, 1 / 5, 1 / 10]
       = Inr \<lparr>al_seconds = 2 / 5, al_length = 40, al_ph_dur = [10, 20, 10]\<rparr>"
  by code_simp

section \<open>Properties of the phoneme-level mean MIDI pitch\<close>









end
